theory Spec2Isabelle
  imports Main "HOL-Library.Word"
begin

section \<open>Values shared by the server modules\<close>

text \<open>
  A Node \<open>Buffer\<close> is a list of bytes. JavaScript strings are modelled as
  \<open>string\<close>; an optional parameter (\<open>x?: string\<close>, possibly \<open>undefined\<close>)
  is a \<open>string option\<close>. Every \<open>throw new Error(msg)\<close> of the source is the
  value \<open>Inl (Error msg)\<close>.
\<close>

type_synonym byte = "8 word"
type_synonym buffer = "byte list"

datatype error = Error (message: string)

text \<open>
  JavaScript truthiness of an optional string, as tested by \<open>if (s)\<close>,
  \<open>!s\<close> and \<open>a && b\<close>: \<open>undefined\<close> and the empty string are falsy.
\<close>

definition truthy :: "string option \<Rightarrow> bool" where
  "truthy s = (case s of None \<Rightarrow> False | Some v \<Rightarrow> v \<noteq> [])"

text \<open>
  \<open>String.prototype.toLowerCase\<close> on the ASCII range: the letters A to Z are
  mapped to a to z, every other character is kept. JavaScript also lowers cased
  characters beyond ASCII; the model agrees with it on the strings that \<open>isAscii\<close>
  accepts, and a statement that two identities differ after lowering is made for such
  strings only.
\<close>

definition lowerChar :: "char \<Rightarrow> char" where
  "lowerChar c =
     (case map_of (zip ''ABCDEFGHIJKLMNOPQRSTUVWXYZ'' ''abcdefghijklmnopqrstuvwxyz'') c of
        None \<Rightarrow> c
      | Some l \<Rightarrow> l)"

definition toLowerCase :: "string \<Rightarrow> string" where
  "toLowerCase s = map lowerChar s"

definition isAscii :: "string \<Rightarrow> bool" where
  "isAscii s = list_all (\<lambda>c. (of_char c :: nat) < 128) s"

text \<open>\<open>String.prototype.includes\<close>: the pattern occurs somewhere in the text.\<close>

fun startsWith :: "string \<Rightarrow> string \<Rightarrow> bool" where
  "startsWith s [] = True"
| "startsWith [] (p # ps) = False"
| "startsWith (c # cs) (p # ps) = (c = p \<and> startsWith cs ps)"

fun includesStr :: "string \<Rightarrow> string \<Rightarrow> bool" where
  "includesStr [] p = (p = [])"
| "includesStr (c # cs) p = (startsWith (c # cs) p \<or> includesStr cs p)"

section \<open>sealService: the policy store and the access evaluator\<close>

text \<open>
  The policy object stored with a seal object has the TypeScript type \<open>any\<close>; the
  evaluator reads three of its properties, each of which may be missing. The fourth
  property, \<open>accessMode\<close>, is written by the later version of the registration route
  and is never read by the evaluator.
\<close>

record policy =
  policy_accessMode :: "string option"
  policy_allowedViewers :: "string list option"
  policy_secretAccessCode :: "string option"
  policy_requireApproval :: "bool option"

record sealObject =
  ownerAddress :: string
  encryptionKey :: string
  policy :: policy
  sealCreatedAt :: nat

record GetDecryptionKeyResult =
  decryptKey :: string
  approved :: bool

text \<open>
  \<open>SealService.getDecryptionKey\<close>. The arguments are the map \<open>sealObjects\<close> and
  the three fields of \<open>GetDecryptionKeyParams\<close>.
\<close>

definition getDecryptionKey ::
  "(string \<rightharpoonup> sealObject) \<Rightarrow> string \<Rightarrow> string option \<Rightarrow> string option
     \<Rightarrow> error + GetDecryptionKeyResult" where
  "getDecryptionKey objs sealObjectId viewerAddress secretAccessCode =
     (case objs sealObjectId of
        None \<Rightarrow> Inl (Error (''Seal object not found: '' @ sealObjectId))
      | Some obj \<Rightarrow>
          if truthy secretAccessCode \<and> truthy (policy_secretAccessCode (policy obj)) then
            (if secretAccessCode = policy_secretAccessCode (policy obj)
             then Inr \<lparr>decryptKey = encryptionKey obj, approved = True\<rparr>
             else Inl (Error ''Access denied. Invalid secret access code.''))
          else if truthy viewerAddress then
            (let v = the viewerAddress;
                 isOwner = (toLowerCase v = toLowerCase (ownerAddress obj));
                 isAllowedViewer =
                   (case policy_allowedViewers (policy obj) of
                      None \<Rightarrow> False
                    | Some addrs \<Rightarrow> list_ex (\<lambda>addr. toLowerCase addr = toLowerCase v) addrs);
                 approved =
                   (isOwner \<or> isAllowedViewer
                    \<or> \<not> (case policy_requireApproval (policy obj) of
                             None \<Rightarrow> False | Some b \<Rightarrow> b))
             in if \<not> approved
                then Inl (Error (''Access denied. Wallet '' @ v
                                 @ '' is not authorized to decrypt this CV.''))
                else Inr \<lparr>decryptKey = encryptionKey obj, approved = True\<rparr>)
          else Inl (Error
            ''Access denied. Please provide either a wallet address or secret access code.''))"

section \<open>Node library functions used by the services\<close>

text \<open>\<open>buf.toString('hex')\<close>: two lower-case hexadecimal digits per byte.\<close>

definition hexDigit :: "nat \<Rightarrow> char" where
  "hexDigit n = ''0123456789abcdef'' ! (n mod 16)"

definition toHex :: "buffer \<Rightarrow> string" where
  "toHex bs = concat (map (\<lambda>b. [hexDigit (unat b div 16), hexDigit (unat b mod 16)]) bs)"

text \<open>
  \<open>Buffer.from(s, 'hex')\<close>: pairs of hexadecimal digits are decoded from the left;
  decoding stops at the first pair that is not two hexadecimal digits.
\<close>

definition hexVal :: "char \<Rightarrow> nat option" where
  "hexVal c = map_of (zip ''0123456789abcdefABCDEF''
                          [0, 1, 2, 3, 4, 5, 6, 7, 8, 9, 10, 11, 12, 13, 14, 15,
                           10, 11, 12, 13, 14, 15]) c"

fun bufferFromHex :: "string \<Rightarrow> buffer" where
  "bufferFromHex (a # b # rest) =
     (case hexVal a of
        None \<Rightarrow> []
      | Some x \<Rightarrow>
          (case hexVal b of
             None \<Rightarrow> []
           | Some y \<Rightarrow> word_of_nat (16 * x + y) # bufferFromHex rest))"
| "bufferFromHex rest = []"

text \<open>
  \<open>Buffer.prototype.subarray(start, end)\<close>: both offsets are clamped to the buffer,
  a negative offset counts from the end, and an end before the start gives the empty
  buffer. A missing \<open>end\<close> is the length of the buffer.
\<close>

definition adjustOffset :: "int \<Rightarrow> int \<Rightarrow> int" where
  "adjustOffset offset len =
     (if offset = 0 then 0
      else if offset < 0 then (if offset + len > 0 then offset + len else 0)
      else if offset < len then offset
      else len)"

definition subarray :: "buffer \<Rightarrow> int \<Rightarrow> int option \<Rightarrow> buffer" where
  "subarray buf start stop =
     (let srcLength = int (length buf);
          s = adjustOffset start srcLength;
          e = (case stop of None \<Rightarrow> srcLength | Some x \<Rightarrow> adjustOffset x srcLength);
          newLength = (if e > s then e - s else 0)
      in take (nat newLength) (drop (nat s) buf))"

section \<open>The proof record and the process state\<close>

text \<open>
  \<open>InsertCVProof\<close> is the object the registration route hands to the storage;
  \<open>CVProof\<close> adds the two fields the storage generates.
\<close>

record InsertCVProof =
  walletAddress :: string
  fileHash :: string
  sealObjectId :: string
  ciphertextHash :: string
  contentId :: string
  storageUrl :: string
  txHash :: string
  proofCode :: string
  secretAccessCode :: "string option"
  allowedViewers :: "string list option"

record CVProof = InsertCVProof +
  id :: string
  createdAt :: nat

text \<open>
  The state of the server process: the two module-level maps (\<open>SealService.sealObjects\<close>
  and \<open>MemStorage.cvProofs\<close>), the operating system's random source as a stream of
  bytes with a read position, and the clock read by \<open>new Date()\<close>.
\<close>

record world =
  sealObjects :: "string \<rightharpoonup> sealObject"
  cvProofs :: "string \<rightharpoonup> CVProof"
  entropy :: "nat \<Rightarrow> byte"
  cursor :: nat
  clock :: nat

definition randomBytes :: "nat \<Rightarrow> world \<Rightarrow> buffer \<times> world" where
  "randomBytes n w =
     (map (entropy w) [cursor w ..< cursor w + n], w\<lparr>cursor := cursor w + n\<rparr>)"

text \<open>
  \<open>crypto.randomUUID()\<close>: sixteen random bytes with the version and variant bits of a
  version 4 UUID, printed in the groups 8-4-4-4-12.
\<close>

definition randomUUID :: "world \<Rightarrow> string \<times> world" where
  "randomUUID w =
     (let (bs, w1) = randomBytes 16 w;
          b6 = word_of_nat (unat (bs ! 6) mod 16 + 64);
          b8 = word_of_nat (unat (bs ! 8) mod 64 + 128);
          h = toHex (bs[6 := b6, 8 := b8])
      in (take 8 h @ ''-'' @ take 4 (drop 8 h) @ ''-'' @ take 4 (drop 12 h) @ ''-''
            @ take 4 (drop 16 h) @ ''-'' @ drop 20 h, w1))"

text \<open>
  The libraries and services the repository calls and does not contain: SHA-256 with a
  hexadecimal digest, the AES-256-GCM cipher of Node's \<open>crypto\<close> (encryption returns the
  encrypted bytes and the authentication tag; decryption throws when the key, the IV
  or the tag is refused), and \<open>registerCVProofOnSui\<close> of \<open>services/suiService\<close>,
  which returns the transaction hash and the proof code.
\<close>

record env =
  sha256 :: "buffer \<Rightarrow> string"
  gcmEncrypt :: "buffer \<Rightarrow> buffer \<Rightarrow> buffer \<Rightarrow> buffer \<times> buffer"
  gcmDecrypt :: "buffer \<Rightarrow> buffer \<Rightarrow> buffer \<Rightarrow> buffer \<Rightarrow> error + buffer"
  registerCVProofOnSui ::
    "string \<Rightarrow> string \<Rightarrow> string \<Rightarrow> string \<Rightarrow> string \<Rightarrow> string \<times> string"

section \<open>sealService: the cipher engine\<close>

definition IV_LENGTH :: nat where
  "IV_LENGTH = 16"

definition AUTH_TAG_LENGTH :: nat where
  "AUTH_TAG_LENGTH = 16"

text \<open>
  \<open>SealService.encryptCV\<close> returns the pair \<open>(ciphertext, sealObjectId)\<close> and the
  state with the new seal object. A missing policy is replaced by the default one.
\<close>

definition encryptCV ::
  "env \<Rightarrow> buffer \<Rightarrow> string \<Rightarrow> policy option \<Rightarrow> world \<Rightarrow> (buffer \<times> string) \<times> world" where
  "encryptCV ev pdfBytes owner pol w =
     (let (keyBytes, w1) = randomBytes 32 w;
          key = toHex keyBytes;
          (iv, w2) = randomBytes IV_LENGTH w1;
          (encrypted, authTag) = gcmEncrypt ev (bufferFromHex key) iv pdfBytes;
          ciphertext = iv @ encrypted @ authTag;
          (idBytes, w3) = randomBytes 16 w2;
          objectId = ''seal_'' @ toHex idBytes;
          obj = \<lparr>ownerAddress = owner, encryptionKey = key,
                 policy = (case pol of
                             None \<Rightarrow> \<lparr>policy_accessMode = None,
                                       policy_allowedViewers = Some [],
                                       policy_secretAccessCode = None,
                                       policy_requireApproval = Some False\<rparr>
                           | Some p \<Rightarrow> p),
                 sealCreatedAt = clock w3\<rparr>
      in ((ciphertext, objectId),
          w3\<lparr>sealObjects := (sealObjects w3)(objectId \<mapsto> obj)\<rparr>))"

text \<open>
  \<open>SealService.decryptCV\<close>: the IV is the first 16 bytes, the tag the last 16 bytes and
  the encrypted data what lies between.
\<close>

definition decryptCV :: "env \<Rightarrow> buffer \<Rightarrow> string \<Rightarrow> error + buffer" where
  "decryptCV ev ciphertext key =
     (let iv = subarray ciphertext 0 (Some (int IV_LENGTH));
          authTag = subarray ciphertext (int (length ciphertext) - int AUTH_TAG_LENGTH) None;
          encrypted = subarray ciphertext (int IV_LENGTH)
                        (Some (int (length ciphertext) - int AUTH_TAG_LENGTH))
      in gcmDecrypt ev (bufferFromHex key) iv encrypted authTag)"

definition computeCiphertextHash :: "env \<Rightarrow> buffer \<Rightarrow> string" where
  "computeCiphertextHash ev ciphertext = sha256 ev ciphertext"

section \<open>walrusService: the mock blob store\<close>

definition uploadCVToWalrus :: "buffer \<Rightarrow> string \<Rightarrow> world \<Rightarrow> (string \<times> string) \<times> world" where
  "uploadCVToWalrus fileBuffer fileName w =
     (let (uuid, w1) = randomUUID w;
          cid = ''walrus_'' @ filter (\<lambda>c. c \<noteq> CHR ''-'') uuid;
          url = ''https://walrus.storage/blob/'' @ cid
      in ((cid, url), w1))"

text \<open>The mock stores no file: retrieval answers \<open>null\<close> for every content id.\<close>

definition retrieveFromWalrus :: "string \<Rightarrow> buffer option" where
  "retrieveFromWalrus cid = None"

section \<open>storage: the proof records\<close>

definition createCVProof :: "InsertCVProof \<Rightarrow> world \<Rightarrow> CVProof \<times> world" where
  "createCVProof insertProof w =
     (let (uuid, w1) = randomUUID w;
          proof = \<lparr>walletAddress = walletAddress insertProof,
                   fileHash = fileHash insertProof,
                   sealObjectId = sealObjectId insertProof,
                   ciphertextHash = ciphertextHash insertProof,
                   contentId = contentId insertProof,
                   storageUrl = storageUrl insertProof,
                   txHash = txHash insertProof,
                   proofCode = proofCode insertProof,
                   secretAccessCode = secretAccessCode insertProof,
                   allowedViewers = allowedViewers insertProof,
                   id = uuid, createdAt = clock w1\<rparr>
      in (proof, w1\<lparr>cvProofs := (cvProofs w1)(proofCode proof \<mapsto> proof)\<rparr>))"

definition getCVProofByCode :: "string \<Rightarrow> world \<Rightarrow> CVProof option" where
  "getCVProofByCode code w = cvProofs w code"

text \<open>
  Modelled from the spec: \<open>MemStorage.updateCVProofTxHash\<close>, which the route
  \<open>POST /api/proof/update-tx\<close> calls and the storage module at hand does not define.
  The spec gives it as \<open>updateAnchorTxId(code, newTxId) -> record | absent\<close>: the
  provisional anchor transaction id of the record identified by the proof code is
  replaced by the confirmed one, no other field is mutated, and an unknown code gives
  absent.
\<close>

definition updateCVProofTxHash :: "string \<Rightarrow> string \<Rightarrow> world \<Rightarrow> CVProof option \<times> world" where
  "updateCVProofTxHash code newTxHash w =
     (case cvProofs w code of
        None \<Rightarrow> (None, w)
      | Some proof \<Rightarrow>
          (let updated = proof\<lparr>txHash := newTxHash\<rparr>
           in (Some updated, w\<lparr>cvProofs := (cvProofs w)(code \<mapsto> updated)\<rparr>)))"

section \<open>routes: the HTTP handlers\<close>

text \<open>
  A response is \<open>res.status(n).json(body)\<close> or the PDF sent with its
  \<open>Content-Disposition\<close> file name.
\<close>

datatype body = Message string | ValidationFailed | ProofJson CVProof

datatype response = Json nat body | Pdf string buffer

subsection \<open>POST /api/proof/register\<close>

datatype accessMode = owner_only | specific_wallets | secret_code

text \<open>The request body after multer and the JSON parsing of \<open>allowedViewers\<close>.\<close>

record registerBody =
  body_walletAddress :: "string option"
  body_accessMode :: "string option"
  body_allowedViewers :: "string list option"
  body_secretAccessCode :: "string option"

record registerData =
  reg_walletAddress :: string
  reg_accessMode :: "accessMode option"
  reg_allowedViewers :: "string list option"
  reg_secretAccessCode :: "string option"

definition accessModeName :: "accessMode \<Rightarrow> string" where
  "accessModeName m =
     (case m of owner_only \<Rightarrow> ''owner_only''
      | specific_wallets \<Rightarrow> ''specific_wallets''
      | secret_code \<Rightarrow> ''secret_code'')"

text \<open>
  \<open>registerSchema.safeParse\<close>: the wallet address is required and has at least 10
  characters; the access mode, when given, is one of the three names.
\<close>

definition safeParse :: "registerBody \<Rightarrow> registerData option" where
  "safeParse b =
     (case body_walletAddress b of
        None \<Rightarrow> None
      | Some wa \<Rightarrow>
          if length wa < 10 then None
          else (case body_accessMode b of
                  None \<Rightarrow>
                    Some \<lparr>reg_walletAddress = wa, reg_accessMode = None,
                          reg_allowedViewers = body_allowedViewers b,
                          reg_secretAccessCode = body_secretAccessCode b\<rparr>
                | Some name \<Rightarrow>
                    (case map_of [(''owner_only'', owner_only),
                                  (''specific_wallets'', specific_wallets),
                                  (''secret_code'', secret_code)] name of
                       None \<Rightarrow> None
                     | Some m \<Rightarrow>
                         Some \<lparr>reg_walletAddress = wa, reg_accessMode = Some m,
                               reg_allowedViewers = body_allowedViewers b,
                               reg_secretAccessCode = body_secretAccessCode b\<rparr>)))"

text \<open>
  The policy object the route passes to \<open>encryptCV\<close>. The repository holds two
  versions of the route. The first sets \<open>requireApproval\<close> for the mode
  \<open>owner_only\<close>; the second writes \<open>accessMode\<close> and no \<open>requireApproval\<close>.
\<close>

definition routePolicy ::
  "accessMode option \<Rightarrow> string list option \<Rightarrow> string option \<Rightarrow> policy" where
  "routePolicy mode viewers generatedSecretCode =
     \<lparr>policy_accessMode = None,
      policy_allowedViewers =
        Some (if mode = Some specific_wallets
              then (case viewers of None \<Rightarrow> [] | Some vs \<Rightarrow> vs) else []),
      policy_secretAccessCode = generatedSecretCode,
      policy_requireApproval = Some (mode = Some owner_only)\<rparr>"

definition routePolicy2 ::
  "accessMode option \<Rightarrow> string list option \<Rightarrow> string option \<Rightarrow> policy" where
  "routePolicy2 mode viewers generatedSecretCode =
     \<lparr>policy_accessMode =
        Some (case mode of None \<Rightarrow> ''owner_only'' | Some m \<Rightarrow> accessModeName m),
      policy_allowedViewers =
        Some (if mode = Some specific_wallets
              then (case viewers of None \<Rightarrow> [] | Some vs \<Rightarrow> vs) else []),
      policy_secretAccessCode = generatedSecretCode,
      policy_requireApproval = None\<rparr>"

text \<open>
  Step 2 of the route: in the mode \<open>secret_code\<close> without a supplied code, 8 random
  bytes are printed as 16 hexadecimal digits; otherwise the supplied code is kept.
\<close>

definition generateSecretCode ::
  "accessMode option \<Rightarrow> string option \<Rightarrow> world \<Rightarrow> string option \<times> world" where
  "generateSecretCode mode supplied w =
     (if mode = Some secret_code \<and> \<not> truthy supplied
      then (let (bs, w1) = randomBytes 8 w in (Some (toHex bs), w1))
      else (supplied, w))"

text \<open>
  The handler, for either version of the policy construction \<open>mkPolicy\<close>. The uploaded
  file is the pair of \<open>req.file.buffer\<close> and \<open>req.file.originalname\<close>.
\<close>

definition register_handler ::
  "(accessMode option \<Rightarrow> string list option \<Rightarrow> string option \<Rightarrow> policy) \<Rightarrow> env
     \<Rightarrow> (buffer \<times> string) option \<Rightarrow> registerBody \<Rightarrow> world \<Rightarrow> response \<times> world" where
  "register_handler mkPolicy ev file b w =
     (case file of
        None \<Rightarrow> (Json 400 (Message ''CV file is required''), w)
      | Some (fileBuffer, fileName) \<Rightarrow>
          (case safeParse b of
             None \<Rightarrow> (Json 400 ValidationFailed, w)
           | Some d \<Rightarrow>
               (let hash = sha256 ev fileBuffer;
                    (generatedSecretCode, w1) =
                      generateSecretCode (reg_accessMode d) (reg_secretAccessCode d) w;
                    ((ciphertext, objectId), w2) =
                      encryptCV ev fileBuffer (reg_walletAddress d)
                        (Some (mkPolicy (reg_accessMode d) (reg_allowedViewers d)
                                 generatedSecretCode)) w1;
                    ctHash = computeCiphertextHash ev ciphertext;
                    ((cid, url), w3) = uploadCVToWalrus ciphertext (''encrypted-'' @ fileName) w2;
                    (tx, code) =
                      registerCVProofOnSui ev hash cid (reg_walletAddress d) objectId ctHash;
                    (proof, w4) =
                      createCVProof
                        \<lparr>walletAddress = reg_walletAddress d, fileHash = hash,
                         sealObjectId = objectId, ciphertextHash = ctHash,
                         contentId = cid, storageUrl = url, txHash = tx, proofCode = code,
                         secretAccessCode =
                           (if truthy generatedSecretCode then generatedSecretCode else None),
                         allowedViewers =
                           (if reg_accessMode d = Some specific_wallets
                            then reg_allowedViewers d else None)\<rparr> w3
                in (Json 201 (ProofJson proof), w4))))"

subsection \<open>POST /api/proof/update-tx\<close>

definition update_tx_handler ::
  "string option \<Rightarrow> string option \<Rightarrow> world \<Rightarrow> response \<times> world" where
  "update_tx_handler code newTxHash w =
     (if \<not> truthy code \<or> \<not> truthy newTxHash
      then (Json 400 (Message ''Proof code and transaction hash required''), w)
      else (case updateCVProofTxHash (the code) (the newTxHash) w of
              (None, w1) \<Rightarrow> (Json 404 (Message ''Failed to update proof''), w1)
            | (Some updatedProof, w1) \<Rightarrow> (Json 200 (ProofJson updatedProof), w1)))"

subsection \<open>GET /api/proof/:proofCode\<close>

definition proof_handler :: "string \<Rightarrow> world \<Rightarrow> response" where
  "proof_handler code w =
     (case getCVProofByCode code w of
        None \<Rightarrow> Json 404 (Message ''Proof not found'')
      | Some proof \<Rightarrow> Json 200 (ProofJson proof))"

subsection \<open>GET /api/proof/:proofCode/decrypted\<close>

text \<open>
  The handler's \<open>catch\<close> block chooses the status from the text of the error message.
\<close>

definition errorStatus :: "error \<Rightarrow> nat" where
  "errorStatus e =
     (if includesStr (message e) ''Access denied'' then 403
      else if includesStr (message e) ''not found'' then 404
      else 500)"

definition errorResponse :: "error \<Rightarrow> response" where
  "errorResponse e = Json (errorStatus e) (Message (message e))"

text \<open>
  The calls the handler makes to the blob store and to the seal service, in the order
  in which it makes them.
\<close>

datatype call =
    CallRetrieveFromWalrus string
  | CallGetDecryptionKey string "string option" "string option"
  | CallComputeCiphertextHash buffer
  | CallDecryptCV buffer string

text \<open>
  The handler for a blob store \<open>retrieve\<close>; it answers with the response and the list
  of calls it has made. \<open>decrypted_handler\<close> is the handler with the mock blob store
  of the repository.
\<close>

definition decrypted_handler_with ::
  "(string \<Rightarrow> buffer option) \<Rightarrow> env \<Rightarrow> string \<Rightarrow> string option \<Rightarrow> string option \<Rightarrow> world
     \<Rightarrow> response \<times> call list" where
  "decrypted_handler_with retrieve ev code viewer secret w =
     (case getCVProofByCode code w of
        None \<Rightarrow> (Json 404 (Message ''Proof not found''), [])
      | Some proof \<Rightarrow>
          (case retrieve (contentId proof) of
             None \<Rightarrow>
               (Json 404 (Message ''Encrypted CV not found''),
                [CallRetrieveFromWalrus (contentId proof)])
           | Some encryptedBuffer \<Rightarrow>
               (case getDecryptionKey (sealObjects w) (sealObjectId proof) viewer secret of
                  Inl e \<Rightarrow>
                    (errorResponse e,
                     [CallRetrieveFromWalrus (contentId proof),
                      CallGetDecryptionKey (sealObjectId proof) viewer secret])
                | Inr r \<Rightarrow>
                    if computeCiphertextHash ev encryptedBuffer \<noteq> ciphertextHash proof
                    then (Json 400 (Message
                            ''CV integrity check failed. File may have been tampered with.''),
                          [CallRetrieveFromWalrus (contentId proof),
                           CallGetDecryptionKey (sealObjectId proof) viewer secret,
                           CallComputeCiphertextHash encryptedBuffer])
                    else ((case decryptCV ev encryptedBuffer (decryptKey r) of
                             Inl e \<Rightarrow> errorResponse e
                           | Inr decryptedPDF \<Rightarrow>
                               Pdf (''cv-'' @ take 8 code @ ''.pdf'') decryptedPDF),
                          [CallRetrieveFromWalrus (contentId proof),
                           CallGetDecryptionKey (sealObjectId proof) viewer secret,
                           CallComputeCiphertextHash encryptedBuffer,
                           CallDecryptCV encryptedBuffer (decryptKey r)]))))"

definition decrypted_handler ::
  "env \<Rightarrow> string \<Rightarrow> string option \<Rightarrow> string option \<Rightarrow> world \<Rightarrow> response \<times> call list" where
  "decrypted_handler = decrypted_handler_with retrieveFromWalrus"

section \<open>Concrete inputs\<close>

text \<open>
  Values on which the theorems below are evaluated: three wallet addresses, a stored
  secret code, a seal object store holding one object under a given policy, stand-ins
  for the external libraries (a digest that prints its input; a cipher that reverses
  the bytes, takes its tag from the key and, like AES-256-GCM, refuses a key that has
  not 32 bytes and a tag made under another key), and a process state with one
  registered proof.
\<close>

definition demoOwner :: string where
  "demoOwner = ''0xABCdef0123''"

definition demoViewer :: string where
  "demoViewer = ''0x1111111111''"

definition demoStranger :: string where
  "demoStranger = ''0x2222222222''"

definition demoCode :: string where
  "demoCode = ''a1B2c3D4e5F60718''"

definition demoObjects :: "policy \<Rightarrow> (string \<rightharpoonup> sealObject)" where
  "demoObjects pol =
     [''seal_01'' \<mapsto> \<lparr>ownerAddress = demoOwner, encryptionKey = ''00ff'',
                       policy = pol, sealCreatedAt = 0\<rparr>]"

definition demoEnv :: env where
  "demoEnv =
     \<lparr>sha256 = toHex,
      gcmEncrypt = (\<lambda>k iv p. (rev p, take 16 k)),
      gcmDecrypt = (\<lambda>k iv e t.
         if length k \<noteq> 32 then Inl (Error ''Invalid key length'')
         else if t = take 16 k then Inr (rev e)
         else Inl (Error ''Unsupported state or unable to authenticate data'')),
      registerCVProofOnSui = (\<lambda>h c wa s ch. (''0xtx01'', ''PROOF01''))\<rparr>"

definition demoProof :: CVProof where
  "demoProof =
     \<lparr>walletAddress = demoOwner, fileHash = ''0a'', sealObjectId = ''seal_01'',
      ciphertextHash = ''0102'', contentId = ''walrus_01'',
      storageUrl = ''https://walrus.storage/blob/walrus_01'', txHash = ''0xtx00'',
      proofCode = ''PROOF00'', secretAccessCode = None, allowedViewers = None,
      id = ''uuid-00'', createdAt = 0\<rparr>"

definition demoWorld :: "policy \<Rightarrow> world" where
  "demoWorld pol =
     \<lparr>sealObjects = demoObjects pol, cvProofs = [''PROOF00'' \<mapsto> demoProof],
      entropy = (\<lambda>n. word_of_nat n), cursor = 0, clock = 7\<rparr>"


definition demoBody :: registerBody where
  "demoBody =
     \<lparr>body_walletAddress = Some demoOwner, body_accessMode = Some ''secret_code'',
      body_allowedViewers = None, body_secretAccessCode = None\<rparr>"

definition demoFile :: "buffer \<times> string" where
  "demoFile = ([1, 2, 3], ''cv.pdf'')"

definition demoRegistered :: CVProof where
  "demoRegistered =
     \<lparr>walletAddress = ''0xABCdef0123'', fileHash = ''010203'',
      sealObjectId = ''seal_38393a3b3c3d3e3f4041424344454647'',
      ciphertextHash =
        ''28292a2b2c2d2e2f303132333435363703020108090a0b0c0d0e0f1011121314151617'',
      contentId = ''walrus_48494a4b4c4d4e4f9051525354555657'',
      storageUrl = ''https://walrus.storage/blob/walrus_48494a4b4c4d4e4f9051525354555657'',
      txHash = ''0xtx01'', proofCode = ''PROOF01'',
      secretAccessCode = Some ''0001020304050607'', allowedViewers = None,
      id = ''58595a5b-5c5d-4e5f-a061-626364656667'', createdAt = 7\<rparr>"

section \<open>Basic facts\<close>

lemma truthy_simps [simp]:
  "truthy None = False" "truthy (Some s) = (s \<noteq> [])"
  by (simp_all add: truthy_def)

lemma toLowerCase_Nil_iff [simp]: "toLowerCase s = [] \<longleftrightarrow> s = []"
  by (simp add: toLowerCase_def)

lemma demoObjects_lookup:
  "demoObjects pol ''seal_01''
     = Some \<lparr>ownerAddress = demoOwner, encryptionKey = ''00ff'',
             policy = pol, sealCreatedAt = 0\<rparr>"
  by (simp add: demoObjects_def)

lemma toLowerCase_Nil [simp]: "toLowerCase [] = []"
  by (simp add: toLowerCase_def)

lemma Nil_toLowerCase_iff [simp]: "[] = toLowerCase s \<longleftrightarrow> s = []"
  by (simp add: toLowerCase_def)

lemma length_toHex: "length (toHex bs) = 2 * length bs"
  by (induction bs) (simp_all add: toHex_def)

lemma length_randomBytes: "length (fst (randomBytes n w)) = n"
  by (simp add: randomBytes_def)

lemma toHex_Nil_iff [simp]: "toHex bs = [] \<longleftrightarrow> bs = []"
  using length_toHex [of bs] by (cases bs) auto

lemma randomBytes_Nil_iff [simp]: "fst (randomBytes n w) = [] \<longleftrightarrow> n = 0"
  using length_randomBytes [of n w] by (cases n) auto

text \<open>
  Decoding the hexadecimal print of a buffer gives the buffer back: the key that
  \<open>encryptCV\<close> stores as a string is the key the cipher receives.
\<close>

lemma hexVal_hexDigit:
  assumes "n < 16"
  shows "hexVal (hexDigit n) = Some n"
proof -
  have "list_all (\<lambda>m. hexVal (hexDigit m) = Some m) [0..<16]"
    by (simp add: upt_rec hexVal_def hexDigit_def)
  with assms show ?thesis
    by (simp add: list_all_iff)
qed

lemma unat_byte_nibbles:
  fixes b :: byte
  shows "unat b div 16 < 16" and "unat b mod 16 < 16"
    and "word_of_nat (16 * (unat b div 16) + unat b mod 16) = b"
proof -
  have "unat b < 2 ^ LENGTH(8)"
    by (rule unsigned_less)
  then show "unat b div 16 < 16"
    by simp
  show "unat b mod 16 < 16"
    by simp
  show "word_of_nat (16 * (unat b div 16) + unat b mod 16) = b"
    by simp
qed

lemma toHex_Cons:
  "toHex (b # bs) = hexDigit (unat b div 16) # hexDigit (unat b mod 16) # toHex bs"
  by (simp add: toHex_def)

lemma bufferFromHex_toHex: "bufferFromHex (toHex bs) = bs"
proof (induction bs)
  case Nil
  show ?case by (simp add: toHex_def)
next
  case (Cons b bs)
  then show ?case
    by (simp add: toHex_Cons hexVal_hexDigit unat_byte_nibbles)
qed

text \<open>The code stored in the mode \<open>secret_code\<close> is never empty.\<close>

lemma generateSecretCode_truthy:
  assumes "generateSecretCode (Some secret_code) supplied w = (g, w1)"
  shows "truthy g"
proof (cases "truthy supplied")
  case True
  with assms show ?thesis by (simp add: generateSecretCode_def)
next
  case False
  with assms have "g = Some (toHex (fst (randomBytes 8 w)))"
    by (auto simp add: generateSecretCode_def split_def Let_def)
  then show ?thesis by simp
qed

section \<open>One registration, step by step\<close>

text \<open>
  The registration route run on the concrete request \<open>demoBody\<close> with the file
  \<open>demoFile\<close>: each collaborator is evaluated on the state its predecessor leaves.
\<close>

lemma randomBytes_explicit:
  "randomBytes n \<lparr>sealObjects = so, cvProofs = cp, entropy = e, cursor = c, clock = k\<rparr>
     = (map e [c ..< c + n],
        \<lparr>sealObjects = so, cvProofs = cp, entropy = e, cursor = c + n, clock = k\<rparr>)"
  by (simp add: randomBytes_def)

lemma demo_generate:
  "generateSecretCode (Some secret_code) None
     \<lparr>sealObjects = so, cvProofs = cp, entropy = (\<lambda>n. word_of_nat n), cursor = 0, clock = k\<rparr>
   = (Some ''0001020304050607'',
      \<lparr>sealObjects = so, cvProofs = cp, entropy = (\<lambda>n. word_of_nat n), cursor = 8, clock = k\<rparr>)"
  by (simp add: generateSecretCode_def randomBytes_explicit toHex_def hexDigit_def upt_rec)

lemma demo_encrypt:
  "encryptCV demoEnv [1, 2, 3] owner (Some pol)
     \<lparr>sealObjects = so, cvProofs = cp, entropy = (\<lambda>n. word_of_nat n), cursor = 8, clock = k\<rparr>
   = (([40, 41, 42, 43, 44, 45, 46, 47, 48, 49, 50, 51, 52, 53, 54, 55, 3, 2, 1,
        8, 9, 10, 11, 12, 13, 14, 15, 16, 17, 18, 19, 20, 21, 22, 23],
       ''seal_38393a3b3c3d3e3f4041424344454647''),
      \<lparr>sealObjects = so(''seal_38393a3b3c3d3e3f4041424344454647'' \<mapsto>
          \<lparr>ownerAddress = owner,
           encryptionKey =
             ''08090a0b0c0d0e0f101112131415161718191a1b1c1d1e1f2021222324252627'',
           policy = pol, sealCreatedAt = k\<rparr>),
       cvProofs = cp, entropy = (\<lambda>n. word_of_nat n), cursor = 72, clock = k\<rparr>)"
  by (simp add: encryptCV_def randomBytes_explicit bufferFromHex_toHex IV_LENGTH_def
        demoEnv_def Let_def upt_rec)
     (simp add: toHex_def hexDigit_def)

lemma demo_uuid_72:
  "randomUUID
     \<lparr>sealObjects = so, cvProofs = cp, entropy = (\<lambda>n. word_of_nat n), cursor = 72, clock = k\<rparr>
   = (''48494a4b-4c4d-4e4f-9051-525354555657'',
      \<lparr>sealObjects = so, cvProofs = cp, entropy = (\<lambda>n. word_of_nat n), cursor = 88, clock = k\<rparr>)"
  by (simp add: randomUUID_def randomBytes_explicit toHex_def hexDigit_def upt_rec Let_def)

lemma demo_uuid_88:
  "randomUUID
     \<lparr>sealObjects = so, cvProofs = cp, entropy = (\<lambda>n. word_of_nat n), cursor = 88, clock = k\<rparr>
   = (''58595a5b-5c5d-4e5f-a061-626364656667'',
      \<lparr>sealObjects = so, cvProofs = cp, entropy = (\<lambda>n. word_of_nat n), cursor = 104, clock = k\<rparr>)"
  by (simp add: randomUUID_def randomBytes_explicit toHex_def hexDigit_def upt_rec Let_def)

lemma demo_upload:
  "uploadCVToWalrus buf name
     \<lparr>sealObjects = so, cvProofs = cp, entropy = (\<lambda>n. word_of_nat n), cursor = 72, clock = k\<rparr>
   = ((''walrus_48494a4b4c4d4e4f9051525354555657'',
       ''https://walrus.storage/blob/walrus_48494a4b4c4d4e4f9051525354555657''),
      \<lparr>sealObjects = so, cvProofs = cp, entropy = (\<lambda>n. word_of_nat n), cursor = 88, clock = k\<rparr>)"
  by (simp add: uploadCVToWalrus_def demo_uuid_72 Let_def)

lemma demo_create:
  "createCVProof ip
     \<lparr>sealObjects = so, cvProofs = cp, entropy = (\<lambda>n. word_of_nat n), cursor = 88, clock = k\<rparr>
   = (\<lparr>walletAddress = walletAddress ip, fileHash = fileHash ip,
        sealObjectId = sealObjectId ip, ciphertextHash = ciphertextHash ip,
        contentId = contentId ip, storageUrl = storageUrl ip, txHash = txHash ip,
        proofCode = proofCode ip, secretAccessCode = secretAccessCode ip,
        allowedViewers = allowedViewers ip,
        id = ''58595a5b-5c5d-4e5f-a061-626364656667'', createdAt = k\<rparr>,
      \<lparr>sealObjects = so,
       cvProofs = cp(proofCode ip \<mapsto>
         \<lparr>walletAddress = walletAddress ip, fileHash = fileHash ip,
          sealObjectId = sealObjectId ip, ciphertextHash = ciphertextHash ip,
          contentId = contentId ip, storageUrl = storageUrl ip, txHash = txHash ip,
          proofCode = proofCode ip, secretAccessCode = secretAccessCode ip,
          allowedViewers = allowedViewers ip,
          id = ''58595a5b-5c5d-4e5f-a061-626364656667'', createdAt = k\<rparr>),
       entropy = (\<lambda>n. word_of_nat n), cursor = 104, clock = k\<rparr>)"
  by (simp add: createCVProof_def demo_uuid_88 Let_def)

lemma demo_safeParse:
  "safeParse demoBody
     = Some \<lparr>reg_walletAddress = demoOwner, reg_accessMode = Some secret_code,
             reg_allowedViewers = None, reg_secretAccessCode = None\<rparr>"
  by (simp add: safeParse_def demoBody_def demoOwner_def)

lemma demo_register:
  "register_handler routePolicy demoEnv (Some demoFile) demoBody (demoWorld pol)
     = (Json 201 (ProofJson demoRegistered),
        \<lparr>sealObjects = (demoObjects pol)(''seal_38393a3b3c3d3e3f4041424344454647'' \<mapsto>
            \<lparr>ownerAddress = demoOwner,
             encryptionKey =
               ''08090a0b0c0d0e0f101112131415161718191a1b1c1d1e1f2021222324252627'',
             policy = routePolicy (Some secret_code) None (Some ''0001020304050607''),
             sealCreatedAt = 7\<rparr>),
         cvProofs = [''PROOF00'' \<mapsto> demoProof, ''PROOF01'' \<mapsto> demoRegistered],
         entropy = (\<lambda>n. word_of_nat n), cursor = 104, clock = 7\<rparr>)"
  apply (simp add: register_handler_def demoFile_def demo_safeParse demoWorld_def Let_def
        demo_generate demo_encrypt demo_upload demo_create)
  apply (simp add: demoEnv_def computeCiphertextHash_def toHex_def hexDigit_def
        demoRegistered_def demoOwner_def)
  done

section \<open>The access evaluator\<close>

text \<open>
  Claim C7. When a secret code is supplied (a non-empty string, which is what the
  evaluator's test \<open>secretAccessCode && policy.secretAccessCode\<close> accepts) and the
  policy has a stored code, the code is checked first: a match grants at once, and a
  mismatch is denied at once with the invalid-code error, whatever viewer identity
  accompanies the request, so also for an identity that would have been granted alone.
\<close>

theorem code_checked_before_identity:
  assumes "objs sid = Some obj"
    and "truthy secret"
    and "truthy (policy_secretAccessCode (policy obj))"
  shows "getDecryptionKey objs sid viewer secret =
           (if secret = policy_secretAccessCode (policy obj)
            then Inr \<lparr>decryptKey = encryptionKey obj, approved = True\<rparr>
            else Inl (Error ''Access denied. Invalid secret access code.''))"
  using assms by (simp add: getDecryptionKey_def)

theorem code_checked_before_identity_witness:
  "getDecryptionKey (demoObjects (routePolicy (Some secret_code) None (Some demoCode)))
     ''seal_01'' (Some demoOwner) (Some ''a1b2c3d4e5f60718'')
     = Inl (Error ''Access denied. Invalid secret access code.'')
   \<and> getDecryptionKey (demoObjects (routePolicy (Some secret_code) None (Some demoCode)))
     ''seal_01'' (Some demoStranger) (Some demoCode)
     = Inr \<lparr>decryptKey = ''00ff'', approved = True\<rparr>
   \<and> getDecryptionKey (demoObjects (routePolicy (Some secret_code) None (Some demoCode)))
     ''seal_01'' (Some demoOwner) None
     = Inr \<lparr>decryptKey = ''00ff'', approved = True\<rparr>"
proof -
  let ?objs = "demoObjects (routePolicy (Some secret_code) None (Some demoCode))"
  let ?obj = "\<lparr>ownerAddress = demoOwner, encryptionKey = ''00ff'',
                policy = routePolicy (Some secret_code) None (Some demoCode),
                sealCreatedAt = 0\<rparr>"
  have obj: "?objs ''seal_01'' = Some ?obj"
    by (rule demoObjects_lookup)
  have stored: "truthy (policy_secretAccessCode (policy ?obj))"
    by (simp add: routePolicy_def demoCode_def)
  have alone: "getDecryptionKey ?objs ''seal_01'' (Some demoOwner) None
                 = Inr \<lparr>decryptKey = ''00ff'', approved = True\<rparr>"
    by (simp add: getDecryptionKey_def demoObjects_def demoOwner_def routePolicy_def)
  show ?thesis
    using code_checked_before_identity
            [of ?objs "''seal_01''" ?obj "Some ''a1b2c3d4e5f60718''" "Some demoOwner"]
          code_checked_before_identity
            [of ?objs "''seal_01''" ?obj "Some demoCode" "Some demoStranger"]
          obj stored alone
    by (simp add: routePolicy_def demoCode_def)
qed




text \<open>
  The wallet method of the evaluator: unless the policy has \<open>requireApproval\<close> set
  to true, every non-empty viewer identity is granted when no code is presented.
\<close>

lemma wallet_method_open_without_requireApproval:
  assumes "objs sid = Some obj"
    and "policy_requireApproval (policy obj) \<noteq> Some True"
    and "v \<noteq> []"
  shows "getDecryptionKey objs sid (Some v) None
           = Inr \<lparr>decryptKey = encryptionKey obj, approved = True\<rparr>"
  using assms by (auto simp add: getDecryptionKey_def split: option.splits)

text \<open>
  Claim C1 says that under a \<open>specific_wallets\<close> policy an identity that is neither
  the owner nor in the viewer list is denied. The route sets \<open>requireApproval\<close> only
  for the mode \<open>owner_only\<close>, so the evaluator's last disjunct
  \<open>!policy.requireApproval\<close> approves every non-empty identity: the stranger below,
  who is not the owner and not in the list, receives the key.
\<close>

theorem specific_wallets_stranger_granted:
  "toLowerCase demoStranger \<noteq> toLowerCase demoOwner
   \<and> \<not> list_ex (\<lambda>addr. toLowerCase addr = toLowerCase demoStranger) [demoViewer]
   \<and> getDecryptionKey
        (demoObjects (routePolicy (Some specific_wallets) (Some [demoViewer]) None))
        ''seal_01'' (Some demoStranger) None
      = Inr \<lparr>decryptKey = ''00ff'', approved = True\<rparr>"
  by (simp add: getDecryptionKey_def demoObjects_def routePolicy_def demoStranger_def
        demoOwner_def demoViewer_def toLowerCase_def lowerChar_def)

text \<open>
  The mode \<open>owner_only\<close> under the first version of the route, which sets
  \<open>requireApproval\<close>: an ASCII identity is granted exactly when it equals the
  owner's ASCII address up to letter case.
\<close>

lemma owner_only_first_route:
  assumes "objs sid = Some obj"
    and "policy obj = routePolicy (Some owner_only) viewers g"
    and "ownerAddress obj \<noteq> []"
    and "isAscii v" and "isAscii (ownerAddress obj)"
  shows "getDecryptionKey objs sid (Some v) None =
           (if toLowerCase v = toLowerCase (ownerAddress obj)
            then Inr \<lparr>decryptKey = encryptionKey obj, approved = True\<rparr>
            else if v = []
            then Inl (Error
              ''Access denied. Please provide either a wallet address or secret access code.'')
            else Inl (Error (''Access denied. Wallet '' @ v
                             @ '' is not authorized to decrypt this CV.'')))"
  using assms by (auto simp add: getDecryptionKey_def routePolicy_def)

text \<open>
  Claim C4 says that under an \<open>owner_only\<close> policy every identity other than the
  owner is denied. The second version of the route builds the policy without
  \<open>requireApproval\<close>; the evaluator reads the missing property as false and grants
  the stranger. Under the first version of the route the same request is denied.
\<close>

theorem owner_only_second_route_stranger_granted:
  "toLowerCase demoStranger \<noteq> toLowerCase demoOwner
   \<and> getDecryptionKey (demoObjects (routePolicy2 (Some owner_only) None None))
        ''seal_01'' (Some demoStranger) None
      = Inr \<lparr>decryptKey = ''00ff'', approved = True\<rparr>
   \<and> getDecryptionKey (demoObjects (routePolicy (Some owner_only) None None))
        ''seal_01'' (Some demoStranger) None
      = Inl (Error
          ''Access denied. Wallet 0x2222222222 is not authorized to decrypt this CV.'')"
  by (simp add: getDecryptionKey_def demoObjects_def routePolicy_def routePolicy2_def
        demoStranger_def demoOwner_def toLowerCase_def lowerChar_def)

text \<open>
  Claim C2, as stated: under a \<open>secret_code\<close> policy every request without the
  matching code is denied. The owner's identity alone, with no code, is granted.
\<close>

theorem secret_code_owner_granted_without_code:
  "getDecryptionKey (demoObjects (routePolicy (Some secret_code) None (Some demoCode)))
     ''seal_01'' (Some demoOwner) None
     = Inr \<lparr>decryptKey = ''00ff'', approved = True\<rparr>"
  by (simp add: getDecryptionKey_def demoObjects_def demoOwner_def routePolicy_def)

text \<open>
  Claim C2, amended: for every seal object created in the mode \<open>secret_code\<close> (by
  either version of the route, with the code the route generated or kept), a request
  that presents a non-empty code is granted exactly when the code equals the stored
  one, character for character, whatever identity comes with it, and is otherwise
  denied with the invalid-code error; a request with neither code nor identity is
  denied; and a request without a code that names the owner, up to letter case, is
  granted.
\<close>

theorem secret_code_policy_evaluation:
  assumes "objs sid = Some obj"
    and "generateSecretCode (Some secret_code) supplied w0 = (g, w1)"
    and "policy obj = routePolicy (Some secret_code) viewers g
         \<or> policy obj = routePolicy2 (Some secret_code) viewers g"
  shows "(sc \<noteq> [] \<longrightarrow>
            getDecryptionKey objs sid viewer (Some sc) =
              (if Some sc = g
               then Inr \<lparr>decryptKey = encryptionKey obj, approved = True\<rparr>
               else Inl (Error ''Access denied. Invalid secret access code.'')))
       \<and> (\<not> truthy secret \<and> \<not> truthy viewer \<longrightarrow>
            getDecryptionKey objs sid viewer secret =
              Inl (Error
                ''Access denied. Please provide either a wallet address or secret access code.''))
       \<and> (\<not> truthy secret \<and> v \<noteq> [] \<and> toLowerCase v = toLowerCase (ownerAddress obj) \<longrightarrow>
            getDecryptionKey objs sid (Some v) secret =
              Inr \<lparr>decryptKey = encryptionKey obj, approved = True\<rparr>)"
proof -
  have g: "truthy g"
    using assms(2) by (rule generateSecretCode_truthy)
  have stored: "policy_secretAccessCode (policy obj) = g"
    using assms(3) by (auto simp add: routePolicy_def routePolicy2_def)
  show ?thesis
    using assms(1) g stored by (simp add: getDecryptionKey_def)
qed

theorem secret_code_policy_evaluation_witness:
  "getDecryptionKey (demoObjects (routePolicy (Some secret_code) None (Some demoCode)))
     ''seal_01'' None (Some demoCode)
     = Inr \<lparr>decryptKey = ''00ff'', approved = True\<rparr>
   \<and> getDecryptionKey (demoObjects (routePolicy (Some secret_code) None (Some demoCode)))
     ''seal_01'' (Some demoOwner) (Some ''a1b2c3d4e5f60718'')
     = Inl (Error ''Access denied. Invalid secret access code.'')
   \<and> getDecryptionKey (demoObjects (routePolicy (Some secret_code) None (Some demoCode)))
     ''seal_01'' None (Some (demoCode @ '' ''))
     = Inl (Error ''Access denied. Invalid secret access code.'')
   \<and> getDecryptionKey (demoObjects (routePolicy (Some secret_code) None (Some demoCode)))
     ''seal_01'' None None
     = Inl (Error
         ''Access denied. Please provide either a wallet address or secret access code.'')
   \<and> getDecryptionKey (demoObjects (routePolicy (Some secret_code) None (Some demoCode)))
     ''seal_01'' (Some ''0xabcDEF0123'') None
     = Inr \<lparr>decryptKey = ''00ff'', approved = True\<rparr>"
proof -
  let ?pol = "routePolicy (Some secret_code) None (Some demoCode)"
  let ?w = "demoWorld ?pol"
  let ?obj = "\<lparr>ownerAddress = demoOwner, encryptionKey = ''00ff'',
                policy = ?pol, sealCreatedAt = 0\<rparr>"
  have gen: "generateSecretCode (Some secret_code) (Some demoCode) ?w = (Some demoCode, ?w)"
    by (simp add: generateSecretCode_def demoCode_def)
  have pol: "policy ?obj = ?pol \<or> policy ?obj = routePolicy2 (Some secret_code) None (Some demoCode)"
    by simp
  have low: "toLowerCase ''0xabcDEF0123'' = toLowerCase (ownerAddress ?obj)"
    by (simp add: demoOwner_def toLowerCase_def lowerChar_def)
  note obj = demoObjects_lookup [of ?pol]
  note inst = secret_code_policy_evaluation
                [where objs = "demoObjects ?pol" and sid = "''seal_01''" and obj = ?obj
                   and supplied = "Some demoCode" and ?w0.0 = ?w and g = "Some demoCode"
                   and ?w1.0 = ?w and viewers = None and v = "''0xabcDEF0123''"]
  show ?thesis
    using inst [where sc = demoCode and viewer = None and secret = None]
          inst [where sc = "''a1b2c3d4e5f60718''" and viewer = "Some demoOwner"
                  and secret = None]
          inst [where sc = "demoCode @ '' ''" and viewer = None and secret = None]
          obj gen pol low
    by (simp add: demoCode_def)
qed

section \<open>The cipher engine\<close>

text \<open>
  The three \<open>subarray\<close> calls of \<open>decryptCV\<close> recover the three parts of a
  buffer packed as IV, encrypted data and tag, when the IV and the tag have 16 bytes.
\<close>

lemma subarray_layout:
  assumes "length iv = 16" and "length tag = 16"
  shows "subarray (iv @ enc @ tag) 0 (Some 16) = iv"
    and "subarray (iv @ enc @ tag) (int (length (iv @ enc @ tag)) - 16) None = tag"
    and "subarray (iv @ enc @ tag) 16 (Some (int (length (iv @ enc @ tag)) - 16)) = enc"
  using assms by (simp_all add: subarray_def adjustOffset_def Let_def)

lemma decryptCV_layout:
  assumes "length iv = 16" and "length tag = 16"
  shows "decryptCV ev (iv @ enc @ tag) key = gcmDecrypt ev (bufferFromHex key) iv enc tag"
  using subarray_layout [OF assms, of enc]
  by (simp add: decryptCV_def IV_LENGTH_def AUTH_TAG_LENGTH_def Let_def)

text \<open>
  Claim C6. Provided the AES-256-GCM primitive of the crypto library, given a key of 32
  bytes and an IV of 16 bytes, makes a tag of 16 bytes and decrypts what it has
  encrypted under the same key, IV and tag: for every plaintext \<open>P\<close>,
  \<open>encryptCV\<close> stores a seal object under the id it returns; the key string stored
  there decodes to the 32 random bytes the cipher was given; the ciphertext is the
  16-byte IV, then the encrypted data, then the 16-byte tag; and \<open>decryptCV\<close> of that
  ciphertext with the stored key string is \<open>P\<close>.
\<close>

theorem encrypt_decrypt_roundtrip:
  assumes gcm: "\<And>k iv p. length k = 32 \<Longrightarrow> length iv = IV_LENGTH \<Longrightarrow>
                   gcmDecrypt ev k iv (fst (gcmEncrypt ev k iv p))
                     (snd (gcmEncrypt ev k iv p)) = Inr p"
    and tag: "\<And>k iv p. length k = 32 \<Longrightarrow> length iv = IV_LENGTH \<Longrightarrow>
                   length (snd (gcmEncrypt ev k iv p)) = AUTH_TAG_LENGTH"
    and enc: "encryptCV ev P owner pol w = ((ct, oid), w')"
  shows "\<exists>obj iv encrypted authTag.
           sealObjects w' oid = Some obj
         \<and> ownerAddress obj = owner
         \<and> bufferFromHex (encryptionKey obj) = fst (randomBytes 32 w)
         \<and> length (bufferFromHex (encryptionKey obj)) = 32
         \<and> ct = iv @ encrypted @ authTag
         \<and> length iv = 16 \<and> length authTag = 16
         \<and> (encrypted, authTag) = gcmEncrypt ev (bufferFromHex (encryptionKey obj)) iv P
         \<and> decryptCV ev ct (encryptionKey obj) = Inr P"
proof -
  define keyBytes where "keyBytes = fst (randomBytes 32 w)"
  define w1 where "w1 = snd (randomBytes 32 w)"
  define key where "key = toHex keyBytes"
  define iv where "iv = fst (randomBytes IV_LENGTH w1)"
  define w2 where "w2 = snd (randomBytes IV_LENGTH w1)"
  define encrypted where "encrypted = fst (gcmEncrypt ev (bufferFromHex key) iv P)"
  define authTag where "authTag = snd (gcmEncrypt ev (bufferFromHex key) iv P)"
  define w3 where "w3 = snd (randomBytes 16 w2)"
  define obj where "obj = \<lparr>ownerAddress = owner, encryptionKey = key,
      policy = (case pol of
                  None \<Rightarrow> \<lparr>policy_accessMode = None, policy_allowedViewers = Some [],
                            policy_secretAccessCode = None,
                            policy_requireApproval = Some False\<rparr>
                | Some p \<Rightarrow> p),
      sealCreatedAt = clock w3\<rparr>"
  have ct: "ct = iv @ encrypted @ authTag"
    and oid: "oid = ''seal_'' @ toHex (fst (randomBytes 16 w2))"
    and w': "w' = w3\<lparr>sealObjects := (sealObjects w3)(oid \<mapsto> obj)\<rparr>"
    using enc
    by (auto simp add: encryptCV_def split_def Let_def keyBytes_def w1_def key_def iv_def
          w2_def encrypted_def authTag_def w3_def obj_def)
  have decoded: "bufferFromHex key = keyBytes"
    by (simp add: key_def bufferFromHex_toHex)
  have lkey: "length (bufferFromHex key) = 32"
    by (simp add: decoded keyBytes_def length_randomBytes)
  have liv': "length iv = IV_LENGTH"
    by (simp add: iv_def length_randomBytes)
  then have liv: "length iv = 16"
    by (simp add: IV_LENGTH_def)
  have ltag: "length authTag = 16"
    using tag [OF lkey liv', of P] by (simp add: authTag_def AUTH_TAG_LENGTH_def)
  have dec: "decryptCV ev ct key = Inr P"
    unfolding ct decryptCV_layout [OF liv ltag]
    using gcm [OF lkey liv', of P] by (simp add: encrypted_def authTag_def)
  have stored: "sealObjects w' oid = Some obj"
    by (simp add: w')
  have pair: "(encrypted, authTag) = gcmEncrypt ev (bufferFromHex (encryptionKey obj)) iv P"
    by (simp add: encrypted_def authTag_def obj_def)
  have sel: "ownerAddress obj = owner" "encryptionKey obj = key"
    by (simp_all add: obj_def)
  have k1: "bufferFromHex (encryptionKey obj) = fst (randomBytes 32 w)"
    by (simp add: sel decoded keyBytes_def)
  have k2: "length (bufferFromHex (encryptionKey obj)) = 32"
    by (simp add: sel lkey)
  from stored sel k1 k2 ct liv ltag pair dec show ?thesis
    by (intro exI [of _ obj] exI [of _ iv] exI [of _ encrypted] exI [of _ authTag]) simp
qed

theorem encrypt_decrypt_roundtrip_witness:
  "\<exists>obj. sealObjects (snd (encryptCV demoEnv [37, 80, 68, 70] demoOwner None
                               (demoWorld (routePolicy None None None))))
             (snd (fst (encryptCV demoEnv [37, 80, 68, 70] demoOwner None
                          (demoWorld (routePolicy None None None))))) = Some obj
         \<and> length (bufferFromHex (encryptionKey obj)) = 32
         \<and> decryptCV demoEnv
             (fst (fst (encryptCV demoEnv [37, 80, 68, 70] demoOwner None
                          (demoWorld (routePolicy None None None)))))
             (encryptionKey obj) = Inr [37, 80, 68, 70]"
proof -
  let ?r = "encryptCV demoEnv [37, 80, 68, 70] demoOwner None
              (demoWorld (routePolicy None None None))"
  have gcm: "\<And>k iv p. length k = 32 \<Longrightarrow> length iv = IV_LENGTH \<Longrightarrow>
                 gcmDecrypt demoEnv k iv (fst (gcmEncrypt demoEnv k iv p))
                   (snd (gcmEncrypt demoEnv k iv p)) = Inr p"
    by (simp add: demoEnv_def)
  have tag: "\<And>k iv p. length k = 32 \<Longrightarrow> length iv = IV_LENGTH \<Longrightarrow>
                 length (snd (gcmEncrypt demoEnv k iv p)) = AUTH_TAG_LENGTH"
    by (simp add: demoEnv_def AUTH_TAG_LENGTH_def)
  have run: "?r = ((fst (fst ?r), snd (fst ?r)), snd ?r)"
    by simp
  from encrypt_decrypt_roundtrip [OF gcm tag run] show ?thesis
    by blast
qed

text \<open>
  The stand-in cipher refuses a key that has not 32 bytes, so the hypothesis of the
  round trip is needed as it is stated: decryption with a key string that decodes to
  another length fails.
\<close>

lemma demo_cipher_refuses_short_key:
  "decryptCV demoEnv
     ([40, 41, 42, 43, 44, 45, 46, 47, 48, 49, 50, 51, 52, 53, 54, 55] @ [3, 2, 1]
      @ [8, 9, 10, 11, 12, 13, 14, 15, 16, 17, 18, 19, 20, 21, 22, 23]) ''00ff''
     = Inl (Error ''Invalid key length'')"
  by (subst decryptCV_layout) (simp_all add: demoEnv_def hexVal_def)

section \<open>The registration response and the proof lookup\<close>

text \<open>
  Claim C3, as stated: after a registration in the mode \<open>secret_code\<close> no later
  operation returns the generated code. The storage keeps the code as a field of the
  proof record, and the lookup by proof code answers with the whole record: on the
  concrete registration it returns the record of the registration response, whose
  \<open>secretAccessCode\<close> is the generated code.
\<close>

theorem lookup_returns_secret_code:
  "fst (register_handler routePolicy demoEnv (Some demoFile) demoBody
          (demoWorld (routePolicy None None None)))
     = Json 201 (ProofJson demoRegistered)
   \<and> proof_handler ''PROOF01''
       (snd (register_handler routePolicy demoEnv (Some demoFile) demoBody
               (demoWorld (routePolicy None None None))))
     = Json 200 (ProofJson demoRegistered)
   \<and> secretAccessCode demoRegistered = Some ''0001020304050607''"
  by (simp add: demo_register proof_handler_def getCVProofByCode_def demoRegistered_def)

text \<open>
  Claim C3, amended: for every registration in the mode \<open>secret_code\<close> without a
  supplied code, under either version of the route, the response carries the proof
  record with the generated code of 16 hexadecimal digits, and the lookup by that
  record's proof code, on the state the registration leaves, returns the same record,
  generated code included.
\<close>

theorem registered_secret_code_served_by_lookup:
  assumes "safeParse b = Some d"
    and "reg_accessMode d = Some secret_code"
    and "\<not> truthy (reg_secretAccessCode d)"
  shows "\<exists>p w'. register_handler mk ev (Some (buf, name)) b w = (Json 201 (ProofJson p), w')
           \<and> secretAccessCode p = Some (toHex (fst (randomBytes 8 w)))
           \<and> length (toHex (fst (randomBytes 8 w))) = 16
           \<and> proof_handler (proofCode p) w' = Json 200 (ProofJson p)"
  using assms
  by (simp add: register_handler_def generateSecretCode_def split_def Let_def
        createCVProof_def proof_handler_def getCVProofByCode_def length_toHex length_randomBytes)

theorem registered_secret_code_served_by_lookup_witness:
  "\<exists>p w'. register_handler routePolicy demoEnv (Some demoFile) demoBody
             (demoWorld (routePolicy None None None)) = (Json 201 (ProofJson p), w')
         \<and> secretAccessCode p = Some ''0001020304050607''
         \<and> proof_handler (proofCode p) w' = Json 200 (ProofJson p)"
proof -
  have code: "toHex (fst (randomBytes 8 (demoWorld (routePolicy None None None))))
                = ''0001020304050607''"
    by (simp add: demoWorld_def randomBytes_explicit toHex_def hexDigit_def upt_rec)
  show ?thesis
    using registered_secret_code_served_by_lookup
            [OF demo_safeParse, of routePolicy demoEnv "fst demoFile" "snd demoFile"
                 "demoWorld (routePolicy None None None)"] code
    by (simp add: demoFile_def)
qed

section \<open>The decrypted retrieval\<close>

text \<open>
  With a blob store that holds the ciphertext of the concrete registration, the
  retrieval by the generated code passes the access evaluation and the integrity check,
  calls \<open>decryptCV\<close> and serves the registered file.
\<close>

lemma demo_retrieval_succeeds:
  "decrypted_handler_with
     (\<lambda>cid. if cid = ''walrus_48494a4b4c4d4e4f9051525354555657''
            then Some ([40, 41, 42, 43, 44, 45, 46, 47, 48, 49, 50, 51, 52, 53, 54, 55]
                       @ [3, 2, 1]
                       @ [8, 9, 10, 11, 12, 13, 14, 15, 16, 17, 18, 19, 20, 21, 22, 23])
            else None)
     demoEnv ''PROOF01'' None (Some ''0001020304050607'')
     (snd (register_handler routePolicy demoEnv (Some demoFile) demoBody (demoWorld pol)))
   = (Pdf ''cv-PROOF01.pdf'' [1, 2, 3],
      [CallRetrieveFromWalrus ''walrus_48494a4b4c4d4e4f9051525354555657'',
       CallGetDecryptionKey ''seal_38393a3b3c3d3e3f4041424344454647'' None
         (Some ''0001020304050607''),
       CallComputeCiphertextHash
         ([40, 41, 42, 43, 44, 45, 46, 47, 48, 49, 50, 51, 52, 53, 54, 55]
          @ [3, 2, 1]
          @ [8, 9, 10, 11, 12, 13, 14, 15, 16, 17, 18, 19, 20, 21, 22, 23]),
       CallDecryptCV
         ([40, 41, 42, 43, 44, 45, 46, 47, 48, 49, 50, 51, 52, 53, 54, 55]
          @ [3, 2, 1]
          @ [8, 9, 10, 11, 12, 13, 14, 15, 16, 17, 18, 19, 20, 21, 22, 23])
         ''08090a0b0c0d0e0f101112131415161718191a1b1c1d1e1f2021222324252627''])"
proof -
  let ?iv = "[40, 41, 42, 43, 44, 45, 46, 47, 48, 49, 50, 51, 52, 53, 54, 55] :: buffer"
  let ?tag = "[8, 9, 10, 11, 12, 13, 14, 15, 16, 17, 18, 19, 20, 21, 22, 23] :: buffer"
  let ?key = "''08090a0b0c0d0e0f101112131415161718191a1b1c1d1e1f2021222324252627''"
  have keyBytes: "bufferFromHex ?key
      = [8, 9, 10, 11, 12, 13, 14, 15, 16, 17, 18, 19, 20, 21, 22, 23,
         24, 25, 26, 27, 28, 29, 30, 31, 32, 33, 34, 35, 36, 37, 38, 39]"
    by (simp add: hexVal_def)
  have dec: "decryptCV demoEnv (?iv @ [3, 2, 1] @ ?tag) ?key = Inr [1, 2, 3]"
    by (subst decryptCV_layout) (simp_all add: demoEnv_def keyBytes del: bufferFromHex.simps)
  have hash: "computeCiphertextHash demoEnv (?iv @ [3, 2, 1] @ ?tag)
                = ciphertextHash demoRegistered"
    by (simp add: computeCiphertextHash_def demoEnv_def demoRegistered_def
          toHex_def hexDigit_def)
  have key: "getDecryptionKey
               ((demoObjects pol)(''seal_38393a3b3c3d3e3f4041424344454647'' \<mapsto>
                  \<lparr>ownerAddress = demoOwner, encryptionKey = ?key,
                   policy = routePolicy (Some secret_code) None (Some ''0001020304050607''),
                   sealCreatedAt = 7\<rparr>))
               ''seal_38393a3b3c3d3e3f4041424344454647'' None (Some ''0001020304050607'')
             = Inr \<lparr>decryptKey = ?key, approved = True\<rparr>"
    by (simp add: getDecryptionKey_def routePolicy_def)
  have sel: "contentId demoRegistered = ''walrus_48494a4b4c4d4e4f9051525354555657''"
    "sealObjectId demoRegistered = ''seal_38393a3b3c3d3e3f4041424344454647''"
    by (simp_all add: demoRegistered_def)
  show ?thesis
    unfolding demo_register
    by (simp add: decrypted_handler_with_def getCVProofByCode_def sel key hash dec
          del: append.simps)
qed




text \<open>
  Claim C10. The blob store of the repository returns \<open>null\<close> for every content
  id, so for every registered proof code and every credential the retrieval handler
  answers 404 \<open>Encrypted CV not found\<close>, and the one call it has made is the
  retrieval: neither the access evaluation nor the hash nor the decryption is reached.
\<close>

theorem decrypted_handler_blob_not_found:
  "retrieveFromWalrus cid = None
   \<and> (getCVProofByCode code w = Some p \<longrightarrow>
        decrypted_handler ev code viewer secret w
          = (Json 404 (Message ''Encrypted CV not found''),
             [CallRetrieveFromWalrus (contentId p)]))"
  by (simp add: retrieveFromWalrus_def decrypted_handler_def decrypted_handler_with_def)

theorem decrypted_handler_blob_not_found_witness:
  "decrypted_handler demoEnv ''PROOF01'' None (Some ''0001020304050607'')
     (snd (register_handler routePolicy demoEnv (Some demoFile) demoBody
             (demoWorld (routePolicy None None None))))
   = (Json 404 (Message ''Encrypted CV not found''),
      [CallRetrieveFromWalrus ''walrus_48494a4b4c4d4e4f9051525354555657''])"
  using decrypted_handler_blob_not_found
          [of "''walrus_01''" "''PROOF01''"
               "snd (register_handler routePolicy demoEnv (Some demoFile) demoBody
                       (demoWorld (routePolicy None None None)))" demoRegistered
               demoEnv None "Some ''0001020304050607''"]
  by (simp add: getCVProofByCode_def demo_register demoRegistered_def)

section \<open>The anchor update\<close>

text \<open>
  Claim C9. For a non-empty proof code and a non-empty transaction hash: when no record
  is stored under the code the route answers 404 and the state is unchanged; when a
  record \<open>p\<close> is stored under it, the route answers with \<open>p\<close> in which \<open>txHash\<close>
  alone is replaced, that record is what the code now maps to, every other proof code
  maps to what it mapped to before, and the seal objects are unchanged.
\<close>

theorem update_tx_replaces_only_txHash:
  assumes "c \<noteq> []" and "t \<noteq> []"
  shows "(cvProofs w c = None \<longrightarrow>
            update_tx_handler (Some c) (Some t) w
              = (Json 404 (Message ''Failed to update proof''), w))
       \<and> (\<forall>p. cvProofs w c = Some p \<longrightarrow>
            update_tx_handler (Some c) (Some t) w
              = (Json 200 (ProofJson (p\<lparr>txHash := t\<rparr>)),
                 w\<lparr>cvProofs := (cvProofs w)(c \<mapsto> p\<lparr>txHash := t\<rparr>)\<rparr>)
            \<and> cvProofs (snd (update_tx_handler (Some c) (Some t) w)) c
                = Some (p\<lparr>txHash := t\<rparr>)
            \<and> (\<forall>c'. c' \<noteq> c \<longrightarrow>
                  cvProofs (snd (update_tx_handler (Some c) (Some t) w)) c' = cvProofs w c')
            \<and> sealObjects (snd (update_tx_handler (Some c) (Some t) w)) = sealObjects w)"
  using assms
  by (simp add: update_tx_handler_def updateCVProofTxHash_def Let_def)

theorem update_tx_replaces_only_txHash_witness:
  "update_tx_handler (Some ''PROOF99'') (Some ''0xconfirmed'')
     (demoWorld (routePolicy None None None))
     = (Json 404 (Message ''Failed to update proof''), demoWorld (routePolicy None None None))
   \<and> fst (update_tx_handler (Some ''PROOF00'') (Some ''0xconfirmed'')
            (demoWorld (routePolicy None None None)))
     = Json 200 (ProofJson (demoProof\<lparr>txHash := ''0xconfirmed''\<rparr>))
   \<and> cvProofs (snd (update_tx_handler (Some ''PROOF00'') (Some ''0xconfirmed'')
                      (demoWorld (routePolicy None None None)))) ''PROOF00''
     = Some (demoProof\<lparr>txHash := ''0xconfirmed''\<rparr>)"
proof -
  let ?w = "demoWorld (routePolicy None None None)"
  have absent: "cvProofs ?w ''PROOF99'' = None"
    by (simp add: demoWorld_def)
  have present: "cvProofs ?w ''PROOF00'' = Some demoProof"
    by (simp add: demoWorld_def)
  show ?thesis
    using update_tx_replaces_only_txHash [of "''PROOF99''" "''0xconfirmed''" ?w]
          update_tx_replaces_only_txHash [of "''PROOF00''" "''0xconfirmed''" ?w]
          absent present
    by simp
qed

end
